theory Spec2Isabelle
  imports Main "HOL-Library.Sublist"
begin

section \<open>Python values used by the agent\<close>

text \<open>
  Exceptions are values. Python separates the exceptions that \<^verbatim>\<open>except Exception\<close>
  catches (instances of \<^verbatim>\<open>Exception\<close>; the string is \<^verbatim>\<open>str(e)\<close>) from the ones
  it lets through (\<^verbatim>\<open>KeyboardInterrupt\<close>, \<^verbatim>\<open>SystemExit\<close>, which derive from
  \<^verbatim>\<open>BaseException\<close> only). Both handlers of the repository
  (\<^verbatim>\<open>WikipediaAgent.query\<close> and \<^verbatim>\<open>main\<close> of the terminal interface) are written
  against this distinction. The source applies \<^verbatim>\<open>str\<close> to instances of \<^verbatim>\<open>Exception\<close>
  only, so \<open>str\<close> is never evaluated on the other two.
\<close>

datatype exn = Exception string | KeyboardInterrupt | SystemExit int

fun is_Exception :: "exn \<Rightarrow> bool" where
  "is_Exception (Exception m) = True"
| "is_Exception KeyboardInterrupt = False"
| "is_Exception (SystemExit n) = False"

fun str :: "exn \<Rightarrow> string" where
  "str (Exception m) = m"
| "str KeyboardInterrupt = ''''"
| "str (SystemExit n) = ''''"

text \<open>\<^verbatim>\<open>sep.join(xs)\<close> of Python.\<close>

fun join :: "string \<Rightarrow> string list \<Rightarrow> string" where
  "join sep [] = ''''"
| "join sep [x] = x"
| "join sep (x # y # ys) = x @ sep @ join sep (y # ys)"

text \<open>\<^verbatim>\<open>s.startswith(p)\<close> of Python.\<close>

definition startswith :: "string \<Rightarrow> string \<Rightarrow> bool" where
  "startswith s p = (take (length p) s = p)"

text \<open>
  \<^verbatim>\<open>s.lower()\<close> and \<^verbatim>\<open>s.strip()\<close> of Python, on the characters a \<^typ>\<open>char\<close> can hold
  (code points up to 255). \<open>lower\<close> lowers the letters A to Z: the source compares the
  lowered text with ASCII words only, and no other character up to 255 is lowered into
  an ASCII one. The white space that \<open>strip\<close> removes is what \<^verbatim>\<open>str.isspace\<close> accepts up
  to 255: the code points 9 to 13, 28 to 32, 133 and 160.
\<close>

definition lower_char :: "char \<Rightarrow> char" where
  "lower_char c =
     (case map_of (zip ''ABCDEFGHIJKLMNOPQRSTUVWXYZ'' ''abcdefghijklmnopqrstuvwxyz'') c of
        Some d \<Rightarrow> d
      | None \<Rightarrow> c)"

definition lower :: "string \<Rightarrow> string" where
  "lower s = map lower_char s"

definition isspace :: "char \<Rightarrow> bool" where
  "isspace c = (c \<in> set [CHR 0x09, CHR 0x0A, CHR 0x0B, CHR 0x0C, CHR 0x0D,
                          CHR 0x1C, CHR 0x1D, CHR 0x1E, CHR 0x1F, CHR 0x20,
                          CHR 0x85, CHR 0xA0])"

definition strip :: "string \<Rightarrow> string" where
  "strip s = rev (dropWhile isspace (rev (dropWhile isspace s)))"


section \<open>The direct-search tool\<close>

text \<open>
  \<^verbatim>\<open>wikipedia_search(queries)\<close> of \<^verbatim>\<open>core/langgraph_agent.py\<close>:
  \<^verbatim>\<open>
    wikipedia = WikipediaQueryRun(api_wrapper=WikipediaAPIWrapper())
    results = []
    for query in queries:
        results.append(wikipedia.run(query))
    return "\n\n".join(results)
  \<close>
  The Wikipedia client is third-party: its \<^verbatim>\<open>run\<close> method is the parameter \<open>run\<close>,
  which returns the text of a lookup or raises. The loop keeps the source's accumulator
  \<open>results\<close>; beside it the model records, in \<open>calls\<close>, every query handed to \<open>run\<close>,
  so that the lookups issued can be counted.
\<close>

fun search_loop ::
  "(string \<Rightarrow> exn + string) \<Rightarrow> string list \<Rightarrow> string list \<Rightarrow> string list
     \<Rightarrow> string list \<times> (exn + string list)" where
  "search_loop run [] results calls = (calls, Inr results)"
| "search_loop run (query # queries) results calls =
     (case run query of
        Inl e \<Rightarrow> (calls @ [query], Inl e)
      | Inr r \<Rightarrow> search_loop run queries (results @ [r]) (calls @ [query]))"

definition wikipedia_search ::
  "(string \<Rightarrow> exn + string) \<Rightarrow> string list \<Rightarrow> string list \<times> (exn + string)" where
  "wikipedia_search run queries =
     (case search_loop run queries [] [] of
        (calls, Inl e) \<Rightarrow> (calls, Inl e)
      | (calls, Inr results) \<Rightarrow> (calls, Inr (join [CHR 0x0A, CHR 0x0A] results)))"


section \<open>Configuration\<close>

text \<open>
  The module-level configuration of \<^verbatim>\<open>core/langgraph_agent.py\<close>, read from the process
  environment \<open>environ\<close> (a dictionary from names to strings, after \<^verbatim>\<open>load_dotenv()\<close>).
  \<^verbatim>\<open>os.getenv(k, d)\<close> returns \<open>d\<close> when \<open>k\<close> is not set.
\<close>

definition getenv :: "(string \<rightharpoonup> string) \<Rightarrow> string \<Rightarrow> string \<Rightarrow> string" where
  "getenv environ k d = (case environ k of None \<Rightarrow> d | Some v \<Rightarrow> v)"

text \<open>The two built-in system prompts, line by line as in the source.\<close>

definition default_prompt_search :: string where
  "default_prompt_search = concat (map (\<lambda>line. line @ [CHR 0x0A])
     [''You are a helpful research assistant that specializes in searching Wikipedia for information.'',
      ''You aim to provide accurate, well-researched answers based on Wikipedia content.'',
      ''When asked a question, you should break it down into multiple search queries if needed to gather comprehensive information.'',
      ''For complex topics, you should make multiple Wikipedia searches to cross-reference and combine information from different articles.'',
      ''If you're unsure about something or can't find information on Wikipedia, you'll be honest about it.'',
      ''You'll maintain a professional and informative tone while being engaging and clear in your responses.'',
      ''Always give sources of the information you provide, which pages you got the information from, and links to the pages.'',
      ''Remember to synthesize information from multiple sources when appropriate to provide the most complete and accurate answer.''])"

definition default_prompt_rag :: string where
  "default_prompt_rag = concat (map (\<lambda>line. line @ [CHR 0x0A])
     [''You are a helpful research assistant that specializes in searching Wikipedia for information.'',
      ''You aim to provide accurate, well-researched answers based on Wikipedia content.'',
      ''When asked a question, you will search Wikipedia to find relevant information.'',
      ''You have access to a RAG tool that allows you to search through Wikipedia content efficiently.'',
      ''If you're unsure about something or can't find information on Wikipedia, you'll be honest about it.'',
      ''You'll maintain a professional and informative tone while being engaging and clear in your responses.''])"

record config =
  OPENAI_API_KEY :: string
  ANTHROPIC_API_KEY :: string
  GOOGLE_API_KEY :: string
  LLM :: string
  USE_RAG :: bool
  SYSTEM_PROMPT :: string

definition load_config :: "(string \<rightharpoonup> string) \<Rightarrow> config" where
  "load_config environ =
     (let use_rag = (lower (getenv environ ''USE_RAG'' ''false'') = ''true'') in
      \<lparr> OPENAI_API_KEY = getenv environ ''OPENAI_API_KEY'' [],
        ANTHROPIC_API_KEY = getenv environ ''ANTHROPIC_API_KEY'' [],
        GOOGLE_API_KEY = getenv environ ''GOOGLE_API_KEY'' [],
        LLM = getenv environ ''LLM'' ''claude-3-5-sonnet-latest'',
        USE_RAG = use_rag,
        SYSTEM_PROMPT =
          (if \<not> use_rag then getenv environ ''SYSTEM_PROMPT'' default_prompt_search
           else getenv environ ''SYSTEM_PROMPT'' default_prompt_rag) \<rparr>)"


section \<open>The agent\<close>

text \<open>
  A message of the conversation is either a tuple (which has no \<^verbatim>\<open>content\<close> attribute) or
  a message object with its \<^verbatim>\<open>content\<close>, which \<^verbatim>\<open>query\<close> declares to be a string.
\<close>

datatype message = Tuple string string | Message string

text \<open>
  What the program writes to the terminal, and the calls of \<^verbatim>\<open>query\<close> the terminal
  interface makes, in the order they happen.
\<close>

datatype event =
    Print_message message
  | Pretty_print message
  | Clear_screen
  | Welcome
  | Goodbye
  | Thinking
  | Exiting
  | Error_line string
  | Query_call string string

text \<open>
  The agent executor is third-party (\<^verbatim>\<open>create_react_agent\<close>). Its \<^verbatim>\<open>stream\<close> is a
  generator: here the list of the steps it takes when it is consumed. A step either
  yields a state (a dictionary; \<^verbatim>\<open>query\<close> reads its key \<^verbatim>\<open>"messages"\<close>) or raises; each
  step leaves the conversation memory \<open>'mem\<close> (the \<^verbatim>\<open>MemorySaver\<close>, also third-party) in a
  new state. The list is finite: a generator that never ends is outside this model.
\<close>

datatype 'mem step = Yield "string \<rightharpoonup> message list" 'mem | Raise exn 'mem

datatype tool = Tool_wikipedia_search | Tool_wikipedia_rag

datatype model_binding =
    ChatAnthropic string string
  | ChatGoogleGenerativeAI string string
  | ChatOpenAI string string

datatype vendor = Anthropic | Google | OpenAI

fun vendor_of :: "model_binding \<Rightarrow> vendor" where
  "vendor_of (ChatAnthropic name key) = Anthropic"
| "vendor_of (ChatGoogleGenerativeAI name key) = Google"
| "vendor_of (ChatOpenAI name key) = OpenAI"

record 'mem agent =
  tools :: "tool list"
  memory :: 'mem
  model :: model_binding
  agent_executor :: "'mem \<Rightarrow> string \<Rightarrow> string \<Rightarrow> 'mem step list"

text \<open>
  The third-party parts used by \<^verbatim>\<open>WikipediaAgent.__init__\<close>: whether building the index in
  \<^verbatim>\<open>create_rag_tool()\<close> raises, whether the constructor of a vendor's chat class raises
  on its arguments, the fresh memory, and the executor built from model, tools and
  system prompt (or the exception raised when building it).
\<close>

record 'mem framework =
  rag_index_build :: "exn option"
  model_init :: "model_binding \<Rightarrow> exn option"
  MemorySaver :: 'mem
  create_react_agent ::
    "model_binding \<Rightarrow> tool list \<Rightarrow> string \<Rightarrow> exn + ('mem \<Rightarrow> string \<Rightarrow> string \<Rightarrow> 'mem step list)"

text \<open>
  \<^verbatim>\<open>create_rag_tool()\<close> of \<^verbatim>\<open>core/rag.py\<close>: every statement of it is a call into the
  embedding, chunking and vector-store libraries; when none raises, it returns the
  retriever tool named \<^verbatim>\<open>wikipedia_rag\<close>.
\<close>

definition create_rag_tool :: "'mem framework \<Rightarrow> exn + tool" where
  "create_rag_tool fw =
     (case rag_index_build fw of Some e \<Rightarrow> Inl e | None \<Rightarrow> Inr Tool_wikipedia_rag)"

text \<open>
  \<^verbatim>\<open>WikipediaAgent.__init__\<close>, in the order of the source: the tools, the memory, the model
  (an \<^verbatim>\<open>if\<close>/\<^verbatim>\<open>elif\<close>/\<^verbatim>\<open>else\<close> on the prefix of \<^verbatim>\<open>LLM\<close>), the executor. Nothing is caught:
  an exception of a constructor leaves \<^verbatim>\<open>__init__\<close>.
\<close>

definition select_model :: "config \<Rightarrow> model_binding" where
  "select_model cfg =
     (if startswith (LLM cfg) ''claude'' then ChatAnthropic (LLM cfg) (ANTHROPIC_API_KEY cfg)
      else if startswith (LLM cfg) ''gemini''
        then ChatGoogleGenerativeAI (LLM cfg) (GOOGLE_API_KEY cfg)
      else ChatOpenAI (LLM cfg) (OPENAI_API_KEY cfg))"

definition init :: "'mem framework \<Rightarrow> config \<Rightarrow> exn + 'mem agent" where
  "init fw cfg =
     (case (if USE_RAG cfg then create_rag_tool fw else Inr Tool_wikipedia_search) of
        Inl e \<Rightarrow> Inl e
      | Inr t \<Rightarrow>
          (case model_init fw (select_model cfg) of
             Some e \<Rightarrow> Inl e
           | None \<Rightarrow>
               (case create_react_agent fw (select_model cfg) [t] (SYSTEM_PROMPT cfg) of
                  Inl e \<Rightarrow> Inl e
                | Inr ex \<Rightarrow>
                    Inr \<lparr> tools = [t], memory = MemorySaver fw,
                          model = select_model cfg, agent_executor = ex \<rparr>)))"

text \<open>
  The \<^verbatim>\<open>for s in stream\<close> loop of \<^verbatim>\<open>query\<close>. The local variable \<^verbatim>\<open>message\<close> is unbound
  (\<open>None\<close>) until the first state has been read. \<^verbatim>\<open>s["messages"]\<close> raises \<^verbatim>\<open>KeyError\<close>
  when the key is missing and \<^verbatim>\<open>[-1]\<close> raises \<^verbatim>\<open>IndexError\<close> on an empty list; a tuple
  is printed, any other message pretty-printed.
\<close>

definition KeyError_messages :: exn where
  "KeyError_messages = Exception ([CHR 0x27] @ ''messages'' @ [CHR 0x27])"

definition IndexError_empty :: exn where
  "IndexError_empty = Exception ''list index out of range''"

fun stream_loop ::
  "'mem step list \<Rightarrow> message option \<Rightarrow> event list \<Rightarrow> 'mem
     \<Rightarrow> (exn + message option) \<times> event list \<times> 'mem" where
  "stream_loop [] message out mem = (Inr message, out, mem)"
| "stream_loop (Raise e mem' # rest) message out mem = (Inl e, out, mem')"
| "stream_loop (Yield s mem' # rest) message out mem =
     (case s ''messages'' of
        None \<Rightarrow> (Inl KeyError_messages, out, mem')
      | Some ms \<Rightarrow>
          (if ms = [] then (Inl IndexError_empty, out, mem')
           else stream_loop rest (Some (last ms))
                  (out @ [case last ms of
                            Tuple r c \<Rightarrow> Print_message (last ms)
                          | Message c \<Rightarrow> Pretty_print (last ms)])
                  mem'))"

text \<open>
  A step the loop gets through: it yields a state whose \<^verbatim>\<open>"messages"\<close> is a non-empty
  list. The properties of \<open>query\<close> are stated over the steps of the stream with it.
\<close>

fun readable :: "'mem step \<Rightarrow> bool" where
  "readable (Yield s mem) = (case s ''messages'' of None \<Rightarrow> False | Some ms \<Rightarrow> ms \<noteq> [])"
| "readable (Raise e mem) = False"

text \<open>
  The body of the \<^verbatim>\<open>try\<close> block of \<^verbatim>\<open>query\<close>: the loop, then \<^verbatim>\<open>return message.content\<close>,
  which raises \<^verbatim>\<open>UnboundLocalError\<close> when the stream yielded nothing and
  \<^verbatim>\<open>AttributeError\<close> when the last message is a tuple (the texts are CPython 3.11's).
\<close>

definition UnboundLocalError_message :: exn where
  "UnboundLocalError_message = Exception
     (''cannot access local variable '' @ [CHR 0x27] @ ''message'' @ [CHR 0x27]
      @ '' where it is not associated with a value'')"

definition AttributeError_content :: exn where
  "AttributeError_content = Exception
     ([CHR 0x27] @ ''tuple'' @ [CHR 0x27] @ '' object has no attribute ''
      @ [CHR 0x27] @ ''content'' @ [CHR 0x27])"

definition query_try ::
  "'mem agent \<Rightarrow> string \<Rightarrow> string \<Rightarrow> (exn + string) \<times> event list \<times> 'mem" where
  "query_try a input_text thread_id =
     (case stream_loop (agent_executor a (memory a) input_text thread_id) None [] (memory a) of
        (Inl e, out, mem) \<Rightarrow> (Inl e, out, mem)
      | (Inr None, out, mem) \<Rightarrow> (Inl UnboundLocalError_message, out, mem)
      | (Inr (Some (Tuple r c)), out, mem) \<Rightarrow> (Inl AttributeError_content, out, mem)
      | (Inr (Some (Message c)), out, mem) \<Rightarrow> (Inr c, out, mem))"

text \<open>
  \<^verbatim>\<open>WikipediaAgent.query\<close>: \<^verbatim>\<open>except Exception as e: return f"An error occurred: {str(e)}"\<close>.
  An exception that is not an instance of \<^verbatim>\<open>Exception\<close> is not caught. The result is what
  the call returns or raises, what it printed, and the agent after the call: \<^verbatim>\<open>query\<close>
  assigns no attribute of \<^verbatim>\<open>self\<close>, only the memory object has been changed by the
  executor.
\<close>

definition query ::
  "'mem agent \<Rightarrow> string \<Rightarrow> string \<Rightarrow> (exn + string) \<times> event list \<times> 'mem agent" where
  "query a input_text thread_id =
     (case query_try a input_text thread_id of
        (Inl e, out, mem) \<Rightarrow>
          (if is_Exception e
           then (Inr (''An error occurred: '' @ str e), out, a\<lparr>memory := mem\<rparr>)
           else (Inl e, out, a\<lparr>memory := mem\<rparr>))
      | (Inr c, out, mem) \<Rightarrow> (Inr c, out, a\<lparr>memory := mem\<rparr>))"

text \<open>The agent after a sequence of calls \<open>(input_text, thread_id)\<close> of \<^verbatim>\<open>query\<close>.\<close>

fun after_queries :: "'mem agent \<Rightarrow> (string \<times> string) list \<Rightarrow> 'mem agent" where
  "after_queries a [] = a"
| "after_queries a ((input_text, thread_id) # calls) =
     after_queries (snd (snd (query a input_text thread_id))) calls"


section \<open>The terminal interface\<close>

text \<open>
  One turn of the \<^verbatim>\<open>while True\<close> loop of \<^verbatim>\<open>main\<close> in \<^verbatim>\<open>app_terminal.py\<close>. Its input is what
  \<^verbatim>\<open>input(...)\<close> does: it returns a line or raises. \<open>main_try\<close> is the \<^verbatim>\<open>try\<close> block:
  \<^verbatim>\<open>sys.exit(0)\<close> raises \<^verbatim>\<open>SystemExit(0)\<close>; \<^verbatim>\<open>continue\<close> and the end of the block are
  \<open>None\<close>; the value \<^verbatim>\<open>query\<close> returns is bound to \<^verbatim>\<open>response\<close> and not used (the lines
  that printed it are commented out in the source). The result of a turn is the
  exception that leaves \<^verbatim>\<open>main\<close>, if any, the events, and the agent.
\<close>

definition main_try ::
  "'mem agent \<Rightarrow> exn + string \<Rightarrow> exn option \<times> event list \<times> 'mem agent" where
  "main_try agent inp =
     (case inp of
        Inl e \<Rightarrow> (Some e, [], agent)
      | Inr line \<Rightarrow>
          (let user_input = strip line in
           if lower user_input \<in> set [''exit'', ''quit'']
             then (Some (SystemExit 0), [Goodbye], agent)
           else if lower user_input = ''clear''
             then (None, [Clear_screen, Welcome], agent)
           else if user_input = [] then (None, [], agent)
           else (case query agent user_input ''abc123'' of
                   (Inl e, out, agent') \<Rightarrow>
                     (Some e, [Thinking, Query_call user_input ''abc123''] @ out, agent')
                 | (Inr response, out, agent') \<Rightarrow>
                     (None, [Thinking, Query_call user_input ''abc123''] @ out, agent'))))"

definition main_loop_body ::
  "'mem agent \<Rightarrow> exn + string \<Rightarrow> exn option \<times> event list \<times> 'mem agent" where
  "main_loop_body agent inp =
     (case main_try agent inp of
        (Some KeyboardInterrupt, out, agent') \<Rightarrow> (Some (SystemExit 0), out @ [Exiting], agent')
      | (Some (Exception m), out, agent') \<Rightarrow> (None, out @ [Error_line m], agent')
      | (Some (SystemExit n), out, agent') \<Rightarrow> (Some (SystemExit n), out, agent')
      | (None, out, agent') \<Rightarrow> (None, out, agent'))"


section \<open>Concrete executors and frameworks\<close>

text \<open>
  Executors used to run the model on concrete inputs: one that yields the user's message
  and then an answer, one whose model provider fails, one interrupted from the keyboard,
  one whose model answers with an empty text, and one that yields a state without messages.
\<close>

definition answering_executor :: "unit \<Rightarrow> string \<Rightarrow> string \<Rightarrow> unit step list" where
  "answering_executor mem input_text thread_id =
     [Yield [''messages'' \<mapsto> [Message input_text]] (),
      Yield [''messages'' \<mapsto> [Message input_text, Message ''Paris'']] ()]"

definition failing_executor :: "unit \<Rightarrow> string \<Rightarrow> string \<Rightarrow> unit step list" where
  "failing_executor mem input_text thread_id =
     [Yield [''messages'' \<mapsto> [Message input_text]] (), Raise (Exception ''rate limit'') ()]"

definition interrupted_executor :: "unit \<Rightarrow> string \<Rightarrow> string \<Rightarrow> unit step list" where
  "interrupted_executor mem input_text thread_id =
     [Yield [''messages'' \<mapsto> [Message input_text]] (), Raise KeyboardInterrupt ()]"

definition silent_executor :: "unit \<Rightarrow> string \<Rightarrow> string \<Rightarrow> unit step list" where
  "silent_executor mem input_text thread_id =
     [Yield [''messages'' \<mapsto> [Message input_text]] (),
      Yield [''messages'' \<mapsto> [Message input_text, Message []]] ()]"

definition empty_state_executor :: "unit \<Rightarrow> string \<Rightarrow> string \<Rightarrow> unit step list" where
  "empty_state_executor mem input_text thread_id = [Yield [''messages'' \<mapsto> []] ()]"

definition agent_with ::
  "(unit \<Rightarrow> string \<Rightarrow> string \<Rightarrow> unit step list) \<Rightarrow> unit agent" where
  "agent_with ex =
     \<lparr> tools = [Tool_wikipedia_search], memory = (),
       model = ChatAnthropic ''claude-3-5-sonnet-latest'' [], agent_executor = ex \<rparr>"

definition accepting_executor_of ::
  "model_binding \<Rightarrow> tool list \<Rightarrow> string
     \<Rightarrow> exn + (unit \<Rightarrow> string \<Rightarrow> string \<Rightarrow> unit step list)" where
  "accepting_executor_of m ts prompt = Inr answering_executor"

definition accepting_model_init :: "model_binding \<Rightarrow> exn option" where
  "accepting_model_init m = None"

definition accepting_framework :: "unit framework" where
  "accepting_framework =
     \<lparr> rag_index_build = None, model_init = accepting_model_init, MemorySaver = (),
       create_react_agent = accepting_executor_of \<rparr>"

definition gemini_environ :: "string \<rightharpoonup> string" where
  "gemini_environ = [''LLM'' \<mapsto> ''gemini-1.5-pro'', ''GOOGLE_API_KEY'' \<mapsto> ''g-key'']"

definition ok_lookup :: "string \<Rightarrow> exn + string" where
  "ok_lookup q = Inr (''on '' @ q)"

definition ok_text :: "string \<Rightarrow> string" where
  "ok_text q = ''on '' @ q"

definition flaky_lookup :: "string \<Rightarrow> exn + string" where
  "flaky_lookup q = (if q = ''Bob'' then Inl (Exception ''timeout'') else Inr (''on '' @ q))"


section \<open>Properties of the direct-search tool\<close>

lemma search_loop_all_ok:
  "\<forall>q \<in> set queries. run q = Inr (f q) \<Longrightarrow>
   search_loop run queries results calls = (calls @ queries, Inr (results @ map f queries))"
  by (induction queries arbitrary: results calls) simp_all

lemma search_loop_first_failure:
  "\<forall>p \<in> set ps. run p = Inr (f p) \<Longrightarrow> run q = Inl e \<Longrightarrow>
   search_loop run (ps @ q # rest) results calls = (calls @ ps @ [q], Inl e)"
  by (induction ps arbitrary: results calls) simp_all

text \<open>
  \<open>join\<close> written with the list functions of the library: the first string, then every
  further string preceded by the separator.
\<close>

lemma join_concat:
  "join sep xs = (case xs of [] \<Rightarrow> [] | x # rest \<Rightarrow> x @ concat (map ((@) sep) rest))"
  by (induction sep xs rule: join.induct) simp_all

lemma search_loop_calls_prefix:
  "\<exists>cs. fst (search_loop run queries results calls) = calls @ cs \<and> prefix cs queries"
proof (induction queries arbitrary: results calls)
  case Nil
  then show ?case by simp
next
  case (Cons q qs)
  show ?case
  proof (cases "run q")
    case (Inl e)
    then show ?thesis by simp
  next
    case (Inr r)
    from Cons [of "results @ [r]" "calls @ [q]"] obtain cs where
      "fst (search_loop run qs (results @ [r]) (calls @ [q])) = (calls @ [q]) @ cs" "prefix cs qs"
      by blast
    with Inr show ?thesis by (intro exI [of _ "q # cs"]) simp
  qed
qed

lemma search_loop_returns:
  "search_loop run queries results calls = (cs, Inr rs) \<Longrightarrow>
   cs = calls @ queries \<and> (\<exists>new. rs = results @ new \<and> map run queries = map Inr new)"
proof (induction queries arbitrary: results calls)
  case Nil
  then show ?case by simp
next
  case (Cons q qs)
  show ?case
  proof (cases "run q")
    case (Inl e)
    with Cons.prems show ?thesis by simp
  next
    case (Inr r)
    with Cons.prems have "search_loop run qs (results @ [r]) (calls @ [q]) = (cs, Inr rs)"
      by simp
    from Cons.IH [OF this] obtain new where
      "cs = (calls @ [q]) @ qs" "rs = (results @ [r]) @ new" "map run qs = map Inr new"
      by blast
    with Inr show ?thesis by (intro conjI exI [of _ "r # new"]) simp_all
  qed
qed

text \<open>
  Claim C3. Whenever \<open>wikipedia_search\<close> returns a text, it has handed each query to the
  lookup exactly once and in input order (the calls recorded are the list of queries
  itself), every lookup has succeeded, and the text is the results of the lookups in
  input order with a blank line (two line feeds) between consecutive results: the first
  result, then each further result preceded by the separator. It does return, with that
  text, when every lookup succeeds. In every case the lookups issued are an initial part
  of the queries, so no query is looked up twice or out of order. For no query it returns
  the empty string and issues no lookup.
\<close>

theorem wikipedia_search_joins_in_order:
  "(snd (wikipedia_search run queries) = Inr joined \<longrightarrow>
      fst (wikipedia_search run queries) = queries
      \<and> (\<exists>rs. map run queries = map Inr rs
            \<and> joined = (case rs of [] \<Rightarrow> []
                       | r # rest \<Rightarrow> r @ concat (map ((@) [CHR 0x0A, CHR 0x0A]) rest))))
   \<and> ((\<forall>q \<in> set queries. run q = Inr (f q)) \<longrightarrow>
      wikipedia_search run queries
        = (queries, Inr (case map f queries of [] \<Rightarrow> []
                         | r # rest \<Rightarrow> r @ concat (map ((@) [CHR 0x0A, CHR 0x0A]) rest))))
   \<and> prefix (fst (wikipedia_search run queries)) queries
   \<and> wikipedia_search run [] = ([], Inr [])"
proof (intro conjI impI)
  assume r: "snd (wikipedia_search run queries) = Inr joined"
  then obtain cs rs where s: "search_loop run queries [] [] = (cs, Inr rs)"
    and t: "joined = join [CHR 0x0A, CHR 0x0A] rs"
    by (auto simp: wikipedia_search_def split: prod.splits sum.splits)
  from search_loop_returns [OF s] have c: "cs = queries" and m: "map run queries = map Inr rs"
    by auto
  from s c show "fst (wikipedia_search run queries) = queries"
    by (simp add: wikipedia_search_def)
  from m t show "\<exists>rs. map run queries = map Inr rs
      \<and> joined = (case rs of [] \<Rightarrow> [] | r # rest \<Rightarrow> r @ concat (map ((@) [CHR 0x0A, CHR 0x0A]) rest))"
    using join_concat [of "[CHR 0x0A, CHR 0x0A]" rs] by auto
next
  assume "\<forall>q \<in> set queries. run q = Inr (f q)"
  from search_loop_all_ok [OF this, of "[]" "[]"]
  show "wikipedia_search run queries
        = (queries, Inr (case map f queries of [] \<Rightarrow> []
                         | r # rest \<Rightarrow> r @ concat (map ((@) [CHR 0x0A, CHR 0x0A]) rest)))"
    using join_concat [of "[CHR 0x0A, CHR 0x0A]" "map f queries"]
    by (simp add: wikipedia_search_def)
next
  from search_loop_calls_prefix [of run queries "[]" "[]"]
  show "prefix (fst (wikipedia_search run queries)) queries"
    by (auto simp: wikipedia_search_def split: prod.splits sum.splits)
next
  show "wikipedia_search run [] = ([], Inr [])" by (simp add: wikipedia_search_def)
qed

theorem wikipedia_search_joins_in_order_witness:
  "wikipedia_search ok_lookup [''Ada'', ''Bob'', ''Cyd'']
     = ([''Ada'', ''Bob'', ''Cyd''],
        Inr (''on Ada'' @ [CHR 0x0A, CHR 0x0A] @ ''on Bob'' @ [CHR 0x0A, CHR 0x0A] @ ''on Cyd''))
   \<and> wikipedia_search ok_lookup [] = ([], Inr [])"
  using wikipedia_search_joins_in_order [of ok_lookup "[''Ada'', ''Bob'', ''Cyd'']" _ ok_text]
  by (simp add: ok_lookup_def ok_text_def)

text \<open>
  Claim C4. When the lookups of the queries before \<open>q\<close> succeed and the lookup of \<open>q\<close>
  raises \<open>e\<close>, the whole call raises \<open>e\<close>: it returns no text, neither the results
  already gathered nor those of the queries after \<open>q\<close>, which are never looked up.
\<close>

theorem wikipedia_search_failure_is_fatal:
  "(\<forall>p \<in> set ps. run p = Inr (f p)) \<Longrightarrow> run q = Inl e \<Longrightarrow>
   wikipedia_search run (ps @ q # rest) = (ps @ [q], Inl e)"
  using search_loop_first_failure [of ps run f q e rest "[]" "[]"]
  by (simp add: wikipedia_search_def)

theorem wikipedia_search_failure_is_fatal_witness:
  "wikipedia_search flaky_lookup [''Ada'', ''Bob'', ''Cyd'']
   = ([''Ada'', ''Bob''], Inl (Exception ''timeout''))"
  using wikipedia_search_failure_is_fatal
    [of "[''Ada'']" flaky_lookup ok_text "''Bob''" "Exception ''timeout''" "[''Cyd'']"]
  by (simp add: flaky_lookup_def ok_text_def)

section \<open>Properties of \<open>query\<close>\<close>

text \<open>
  The loop gets through a readable step and goes on with the rest of the stream,
  \<^verbatim>\<open>message\<close> bound to the last message of that step. So the loop ends with an
  exception exactly at the first step that is not readable (a step that raises, or a
  state without \<^verbatim>\<open>"messages"\<close> or with an empty list of them), and ends normally exactly
  when every step is readable.
\<close>

lemma readable_cases:
  "readable st \<Longrightarrow> \<exists>s m ms. st = Yield s m \<and> s ''messages'' = Some ms \<and> ms \<noteq> []"
  by (cases st) (auto split: option.splits)

lemma stream_loop_readable_prefix:
  "\<forall>st \<in> set ys. readable st \<Longrightarrow>
   \<exists>message' out'' mem''.
     stream_loop (ys @ rest) message out mem = stream_loop rest message' (out @ out'') mem''
     \<and> (ys = [] \<longrightarrow> message' = message)
     \<and> (ys \<noteq> [] \<longrightarrow>
          (\<exists>s m ms. last ys = Yield s m \<and> s ''messages'' = Some ms \<and> message' = Some (last ms)))"
proof (induction ys arbitrary: message out mem)
  case Nil
  have "stream_loop ([] @ rest) message out mem = stream_loop rest message (out @ []) mem"
    by simp
  then show ?case by blast
next
  case (Cons st ys)
  then have "readable st" by simp
  from readable_cases [OF this] obtain s m ms where
    st: "st = Yield s m" "s ''messages'' = Some ms" "ms \<noteq> []" by blast
  define ev where "ev = (case last ms of Tuple r c \<Rightarrow> Print_message (last ms)
                          | Message c \<Rightarrow> Pretty_print (last ms))"
  have step: "stream_loop ((st # ys) @ rest) message out mem
              = stream_loop (ys @ rest) (Some (last ms)) (out @ [ev]) m"
    using st by (simp add: ev_def)
  from Cons.prems have "\<forall>st \<in> set ys. readable st" by simp
  from Cons.IH [OF this, of "Some (last ms)" "out @ [ev]" m] obtain message' out'' mem'' where
    ih: "stream_loop (ys @ rest) (Some (last ms)) (out @ [ev]) m
           = stream_loop rest message' ((out @ [ev]) @ out'') mem''"
        "ys = [] \<longrightarrow> message' = Some (last ms)"
        "ys \<noteq> [] \<longrightarrow> (\<exists>s m ms. last ys = Yield s m \<and> s ''messages'' = Some ms
                          \<and> message' = Some (last ms))"
    by blast
  have a: "stream_loop ((st # ys) @ rest) message out mem
           = stream_loop rest message' (out @ (ev # out'')) mem''"
    using step ih(1) by simp
  have b: "\<exists>s m ms. last (st # ys) = Yield s m \<and> s ''messages'' = Some ms
             \<and> message' = Some (last ms)"
    using st ih(2,3) by (cases "ys = []") auto
  from a b show ?case by blast
qed

lemma stream_loop_Inl:
  "stream_loop steps message out mem = (Inl e, out', mem') \<Longrightarrow>
   \<exists>ys st rest. steps = ys @ st # rest \<and> (\<forall>x \<in> set ys. readable x)
     \<and> ((\<exists>m. st = Raise e m)
        \<or> (\<exists>s m. st = Yield s m \<and> s ''messages'' = None \<and> e = KeyError_messages)
        \<or> (\<exists>s m. st = Yield s m \<and> s ''messages'' = Some [] \<and> e = IndexError_empty))"
proof (induction steps message out mem rule: stream_loop.induct)
  case (1 message out mem)
  then show ?case by simp
next
  case (2 e' m' rest message out mem)
  then have "Raise e' m' # rest = [] @ Raise e m' # rest" by simp
  then show ?case by fastforce
next
  case (3 s m' rest message out mem)
  show ?case
  proof (cases "s ''messages''")
    case None
    with 3 have "e = KeyError_messages" by simp
    with None have "Yield s m' # rest = [] @ Yield s m' # rest \<and> s ''messages'' = None
        \<and> e = KeyError_messages" by simp
    then show ?thesis by fastforce
  next
    case (Some ms)
    show ?thesis
    proof (cases "ms = []")
      case True
      with 3 Some have "e = IndexError_empty" by simp
      with Some True have "Yield s m' # rest = [] @ Yield s m' # rest \<and> s ''messages'' = Some []
        \<and> e = IndexError_empty" by simp
      then show ?thesis by fastforce
    next
      case False
      with 3 Some obtain ys st rest' where
        r: "rest = ys @ st # rest'" "\<forall>x \<in> set ys. readable x"
           "(\<exists>m. st = Raise e m)
            \<or> (\<exists>s m. st = Yield s m \<and> s ''messages'' = None \<and> e = KeyError_messages)
            \<or> (\<exists>s m. st = Yield s m \<and> s ''messages'' = Some [] \<and> e = IndexError_empty)"
        by auto
      have "Yield s m' # rest = (Yield s m' # ys) @ st # rest'" using r(1) by simp
      moreover have "\<forall>x \<in> set (Yield s m' # ys). readable x" using r(2) Some False by simp
      ultimately show ?thesis using r(3) by blast
    qed
  qed
qed

lemma stream_loop_Inr:
  "stream_loop steps message out mem = (Inr x, out', mem') \<Longrightarrow>
   (\<forall>st \<in> set steps. readable st) \<and> (steps = [] \<longrightarrow> x = message)
   \<and> (steps \<noteq> [] \<longrightarrow>
        (\<exists>s m ms. last steps = Yield s m \<and> s ''messages'' = Some ms \<and> ms \<noteq> []
           \<and> x = Some (last ms)))"
proof (induction steps message out mem rule: stream_loop.induct)
  case (1 message out mem)
  then show ?case by simp
next
  case (2 e' m' rest message out mem)
  then show ?case by simp
next
  case (3 s m' rest message out mem)
  then show ?case
    by (cases "rest = []") (auto split: option.splits if_splits)
qed

lemma query_cases:
  "fst (query a t tid) =
     (case fst (query_try a t tid) of
        Inl e \<Rightarrow> if is_Exception e then Inr (''An error occurred: '' @ str e) else Inl e
      | Inr c \<Rightarrow> Inr c)"
  by (simp add: query_def split: prod.splits sum.splits)

lemma query_never_raises_Exception:
  "query a t tid = (Inl e, out, a') \<Longrightarrow> \<not> is_Exception e"
  using query_cases [of a t tid] by (auto split: sum.splits if_splits)

lemma query_keeps_fields:
  "tools (snd (snd (query a t tid))) = tools a \<and> model (snd (snd (query a t tid))) = model a
   \<and> agent_executor (snd (snd (query a t tid))) = agent_executor a"
  by (simp add: query_def split: prod.splits sum.splits)

lemma after_queries_keeps_fields:
  "tools (after_queries a calls) = tools a \<and> model (after_queries a calls) = model a
   \<and> agent_executor (after_queries a calls) = agent_executor a"
  by (induction a calls rule: after_queries.induct) (simp_all add: query_keeps_fields)

text \<open>What the \<^verbatim>\<open>try\<close> block of \<open>query\<close> gives, read off the steps of the stream.\<close>

lemma query_stream_raises:
  assumes "agent_executor a (memory a) t tid = ys @ Raise e m # rest"
    and "\<forall>st \<in> set ys. readable st"
  shows "fst (query_try a t tid) = Inl e"
  using stream_loop_readable_prefix [OF assms(2), of "Raise e m # rest" None "[]" "memory a"]
    assms(1)
  by (auto simp: query_try_def)

lemma query_stream_no_messages:
  assumes "agent_executor a (memory a) t tid = ys @ Yield s m # rest"
    and "\<forall>st \<in> set ys. readable st" and "s ''messages'' = None"
  shows "fst (query_try a t tid) = Inl KeyError_messages"
  using stream_loop_readable_prefix [OF assms(2), of "Yield s m # rest" None "[]" "memory a"]
    assms(1,3)
  by (auto simp: query_try_def)

lemma query_stream_empty_messages:
  assumes "agent_executor a (memory a) t tid = ys @ Yield s m # rest"
    and "\<forall>st \<in> set ys. readable st" and "s ''messages'' = Some []"
  shows "fst (query_try a t tid) = Inl IndexError_empty"
  using stream_loop_readable_prefix [OF assms(2), of "Yield s m # rest" None "[]" "memory a"]
    assms(1,3)
  by (auto simp: query_try_def)

lemma query_stream_ends:
  assumes "agent_executor a (memory a) t tid = ys @ [Yield s m]"
    and "\<forall>st \<in> set ys. readable st" and "s ''messages'' = Some ms" and "ms \<noteq> []"
  shows "fst (query_try a t tid)
         = (case last ms of Tuple r c \<Rightarrow> Inl AttributeError_content | Message c \<Rightarrow> Inr c)"
proof -
  have "\<forall>st \<in> set (ys @ [Yield s m]). readable st" using assms(2,3,4) by simp
  from stream_loop_readable_prefix [OF this, of "[]" None "[]" "memory a"] assms(1,3)
  show ?thesis by (auto simp: query_try_def split: message.splits)
qed

lemma query_try_Inr:
  assumes "fst (query_try a t tid) = Inr c"
  shows "\<exists>ys s m ms. agent_executor a (memory a) t tid = ys @ [Yield s m]
           \<and> (\<forall>st \<in> set ys. readable st) \<and> s ''messages'' = Some ms \<and> ms \<noteq> []
           \<and> last ms = Message c"
proof -
  define steps where "steps = agent_executor a (memory a) t tid"
  from assms obtain out' mem' where
    l: "stream_loop steps None [] (memory a) = (Inr (Some (Message c)), out', mem')"
    by (auto simp: query_try_def steps_def
             split: prod.splits sum.splits option.splits message.splits)
  from stream_loop_Inr [OF l] have r: "\<forall>st \<in> set steps. readable st"
    and n: "steps \<noteq> []"
    and "\<exists>s m ms. last steps = Yield s m \<and> s ''messages'' = Some ms \<and> ms \<noteq> []
           \<and> Some (Message c) = Some (last ms)"
    by auto
  then obtain s m ms where
    y: "last steps = Yield s m" "s ''messages'' = Some ms" "ms \<noteq> []" "last ms = Message c"
    by auto
  have "steps = butlast steps @ [Yield s m]" using n y(1) by (metis append_butlast_last_id)
  moreover have "\<forall>st \<in> set (butlast steps). readable st" using r by (auto dest: in_set_butlastD)
  ultimately show ?thesis using y unfolding steps_def by blast
qed

lemma query_try_Inl_non_Exception:
  assumes "fst (query_try a t tid) = Inl e" and "\<not> is_Exception e"
  shows "\<exists>ys m rest. agent_executor a (memory a) t tid = ys @ Raise e m # rest
           \<and> (\<forall>st \<in> set ys. readable st)"
proof -
  define steps where "steps = agent_executor a (memory a) t tid"
  from assms obtain out' mem' where
    l: "stream_loop steps None [] (memory a) = (Inl e, out', mem')"
    by (auto simp: query_try_def steps_def UnboundLocalError_message_def
                   AttributeError_content_def
             split: prod.splits sum.splits option.splits message.splits)
  from stream_loop_Inl [OF l] assms(2) show ?thesis
    unfolding steps_def by (auto simp: KeyError_messages_def IndexError_empty_def)
qed

text \<open>
  Claim C1, as stated, fails: when the stream is interrupted from the keyboard during a
  call, \<^verbatim>\<open>KeyboardInterrupt\<close> is not an instance of \<^verbatim>\<open>Exception\<close>, the handler of \<open>query\<close>
  does not catch it, and it reaches the caller.
\<close>

theorem query_propagates_KeyboardInterrupt:
  "fst (query (agent_with interrupted_executor) ''hello'' ''abc123'') = Inl KeyboardInterrupt"
  by (simp add: query_def query_try_def agent_with_def interrupted_executor_def)

text \<open>
  Claim C1, amended. For every agent, input text and thread id whose stream ends,
  \<open>query\<close> raises \<open>e\<close> to its caller exactly when \<open>e\<close> is not an instance of \<^verbatim>\<open>Exception\<close>
  and the stream raises \<open>e\<close> after steps that were all read; in every other case it
  returns a string. In particular every instance of \<^verbatim>\<open>Exception\<close> is caught at the
  boundary of \<open>query\<close> and converted into the returned text
  \<open>''An error occurred: ''\<close> followed by \<open>str e\<close>: one the stream raises (the model, a
  tool), and the ones of \<open>query\<close>'s own reading of the stream, that is \<^verbatim>\<open>KeyError\<close> for a
  state without \<^verbatim>\<open>"messages"\<close>, \<^verbatim>\<open>IndexError\<close> for an empty list of messages,
  \<^verbatim>\<open>UnboundLocalError\<close> for a stream that yields nothing and \<^verbatim>\<open>AttributeError\<close> for a
  last message that is a tuple.
\<close>

theorem query_raises_iff_stream_raises_non_Exception:
  "(fst (query a t tid) = Inl e \<longleftrightarrow>
      \<not> is_Exception e
      \<and> (\<exists>ys m rest. agent_executor a (memory a) t tid = ys @ Raise e m # rest
            \<and> (\<forall>st \<in> set ys. readable st)))
   \<and> (agent_executor a (memory a) t tid = ys @ Raise e' m' # rest'
        \<and> (\<forall>st \<in> set ys. readable st) \<and> is_Exception e' \<longrightarrow>
      fst (query a t tid) = Inr (''An error occurred: '' @ str e'))
   \<and> (agent_executor a (memory a) t tid = ys @ Yield s m' # rest'
        \<and> (\<forall>st \<in> set ys. readable st) \<and> s ''messages'' = None \<longrightarrow>
      fst (query a t tid) = Inr (''An error occurred: '' @ str KeyError_messages))
   \<and> (agent_executor a (memory a) t tid = ys @ Yield s m' # rest'
        \<and> (\<forall>st \<in> set ys. readable st) \<and> s ''messages'' = Some [] \<longrightarrow>
      fst (query a t tid) = Inr (''An error occurred: '' @ str IndexError_empty))
   \<and> (agent_executor a (memory a) t tid = [] \<longrightarrow>
      fst (query a t tid) = Inr (''An error occurred: '' @ str UnboundLocalError_message))
   \<and> (agent_executor a (memory a) t tid = ys @ [Yield s m']
        \<and> (\<forall>st \<in> set ys. readable st) \<and> s ''messages'' = Some ms \<and> ms \<noteq> []
        \<and> last ms = Tuple r c \<longrightarrow>
      fst (query a t tid) = Inr (''An error occurred: '' @ str AttributeError_content))"
proof (intro conjI impI iffI; (elim conjE exE)?)
  assume "fst (query a t tid) = Inl e"
  then have "fst (query_try a t tid) = Inl e" "\<not> is_Exception e"
    using query_cases [of a t tid] by (auto split: sum.splits if_splits)
  then show "\<not> is_Exception e" 
    "\<exists>ys m rest. agent_executor a (memory a) t tid = ys @ Raise e m # rest
            \<and> (\<forall>st \<in> set ys. readable st)"
    using query_try_Inl_non_Exception [of a t tid e] by auto
next
  fix zs m rest
  assume "\<not> is_Exception e" "agent_executor a (memory a) t tid = zs @ Raise e m # rest"
    "\<forall>st \<in> set zs. readable st"
  then show "fst (query a t tid) = Inl e"
    using query_stream_raises [of a t tid zs e m rest] by (simp add: query_cases)
next
  assume "agent_executor a (memory a) t tid = ys @ Raise e' m' # rest'"
    "\<forall>st \<in> set ys. readable st" "is_Exception e'"
  then show "fst (query a t tid) = Inr (''An error occurred: '' @ str e')"
    using query_stream_raises [of a t tid ys e' m' rest'] by (simp add: query_cases)
next
  assume "agent_executor a (memory a) t tid = ys @ Yield s m' # rest'"
    "\<forall>st \<in> set ys. readable st" "s ''messages'' = None"
  then show "fst (query a t tid) = Inr (''An error occurred: '' @ str KeyError_messages)"
    using query_stream_no_messages [of a t tid ys s m' rest']
    by (simp add: query_cases KeyError_messages_def)
next
  assume "agent_executor a (memory a) t tid = ys @ Yield s m' # rest'"
    "\<forall>st \<in> set ys. readable st" "s ''messages'' = Some []"
  then show "fst (query a t tid) = Inr (''An error occurred: '' @ str IndexError_empty)"
    using query_stream_empty_messages [of a t tid ys s m' rest']
    by (simp add: query_cases IndexError_empty_def)
next
  assume "agent_executor a (memory a) t tid = []"
  then show "fst (query a t tid) = Inr (''An error occurred: '' @ str UnboundLocalError_message)"
    by (simp add: query_cases query_try_def UnboundLocalError_message_def)
next
  assume "agent_executor a (memory a) t tid = ys @ [Yield s m']"
    "\<forall>st \<in> set ys. readable st" "s ''messages'' = Some ms" "ms \<noteq> []" "last ms = Tuple r c"
  then show "fst (query a t tid) = Inr (''An error occurred: '' @ str AttributeError_content)"
    using query_stream_ends [of a t tid ys s m' ms]
    by (simp add: query_cases AttributeError_content_def)
qed

theorem query_raises_iff_stream_raises_non_Exception_witness:
  "fst (query (agent_with interrupted_executor) ''hi'' ''t1'') = Inl KeyboardInterrupt
   \<and> fst (query (agent_with failing_executor) ''hi'' ''t1'')
       = Inr ''An error occurred: rate limit''
   \<and> fst (query (agent_with empty_state_executor) ''hi'' ''t1'')
       = Inr ''An error occurred: list index out of range''"
proof -
  have i: "agent_executor (agent_with interrupted_executor)
             (memory (agent_with interrupted_executor)) ''hi'' ''t1''
           = [Yield [''messages'' \<mapsto> [Message ''hi'']] ()] @ Raise KeyboardInterrupt () # []"
    by (simp add: agent_with_def interrupted_executor_def)
  have f: "agent_executor (agent_with failing_executor)
             (memory (agent_with failing_executor)) ''hi'' ''t1''
           = [Yield [''messages'' \<mapsto> [Message ''hi'']] ()]
             @ Raise (Exception ''rate limit'') () # []"
    by (simp add: agent_with_def failing_executor_def)
  have e: "agent_executor (agent_with empty_state_executor)
             (memory (agent_with empty_state_executor)) ''hi'' ''t1''
           = [] @ Yield [''messages'' \<mapsto> []] () # []"
    by (simp add: agent_with_def empty_state_executor_def)
  have r: "\<forall>st \<in> set [Yield [''messages'' \<mapsto> [Message ''hi'']] ()]. readable st"
    by simp
  have n: "\<not> is_Exception KeyboardInterrupt" "is_Exception (Exception ''rate limit'')"
    by simp_all
  have "fst (query (agent_with interrupted_executor) ''hi'' ''t1'') = Inl KeyboardInterrupt"
    using i r n(1)
      query_raises_iff_stream_raises_non_Exception
        [where a = "agent_with interrupted_executor" and t = "''hi''" and tid = "''t1''"
           and e = KeyboardInterrupt, THEN conjunct1]
    by blast
  moreover have "fst (query (agent_with failing_executor) ''hi'' ''t1'')
       = Inr (''An error occurred: '' @ str (Exception ''rate limit''))"
    using f r n(2)
      query_raises_iff_stream_raises_non_Exception
        [where a = "agent_with failing_executor" and t = "''hi''" and tid = "''t1''"
           and ys = "[Yield [''messages'' \<mapsto> [Message ''hi'']] ()]"
           and e' = "Exception ''rate limit''" and m' = "()" and rest' = "[]",
         THEN conjunct2, THEN conjunct1]
    by blast
  moreover have "fst (query (agent_with empty_state_executor) ''hi'' ''t1'')
       = Inr (''An error occurred: '' @ str IndexError_empty)"
    using e
      query_raises_iff_stream_raises_non_Exception
        [where a = "agent_with empty_state_executor" and t = "''hi''" and tid = "''t1''"
           and ys = "[]" and s = "[''messages'' \<mapsto> []]" and m' = "()" and rest' = "[]",
         THEN conjunct2, THEN conjunct2, THEN conjunct2, THEN conjunct1]
    by simp
  ultimately show ?thesis by (simp add: IndexError_empty_def)
qed

text \<open>
  Claim C2, as stated, fails: when the last message of the stream has an empty content,
  \<open>query\<close> returns the empty string for the non-empty input \<open>''hello''\<close>.
\<close>

theorem query_returns_empty_string:
  "fst (query (agent_with silent_executor) ''hello'' ''abc123'') = Inr []"
  by (simp add: query_def query_try_def agent_with_def silent_executor_def)

text \<open>
  Claim C2, amended. When every step of the stream is read and the last message of the
  last state has the content \<open>c\<close>, \<open>query\<close> returns \<open>c\<close> unchanged. Every string \<open>query\<close>
  returns is either that content or, the \<^verbatim>\<open>try\<close> block having raised an instance \<open>e\<close> of
  \<^verbatim>\<open>Exception\<close>, the non-empty text \<open>''An error occurred: ''\<close> followed by \<open>str e\<close>. Hence
  \<open>query\<close> returns the empty string exactly when every step of the stream is read and
  the content of the last message of the last state is empty, whatever the input text.
\<close>

theorem query_returns_last_content_or_error_text:
  "(agent_executor a (memory a) t tid = ys @ [Yield s m]
        \<and> (\<forall>st \<in> set ys. readable st) \<and> s ''messages'' = Some ms \<and> ms \<noteq> []
        \<and> last ms = Message c \<longrightarrow>
      fst (query a t tid) = Inr c)
   \<and> (fst (query a t tid) = Inr answer \<longrightarrow>
        (\<exists>ys s m ms. agent_executor a (memory a) t tid = ys @ [Yield s m]
           \<and> (\<forall>st \<in> set ys. readable st) \<and> s ''messages'' = Some ms \<and> ms \<noteq> []
           \<and> last ms = Message answer)
        \<or> (\<exists>e. is_Exception e \<and> fst (query_try a t tid) = Inl e
              \<and> answer = ''An error occurred: '' @ str e \<and> answer \<noteq> []))
   \<and> (fst (query a t tid) = Inr [] \<longleftrightarrow>
        (\<exists>ys s m ms. agent_executor a (memory a) t tid = ys @ [Yield s m]
           \<and> (\<forall>st \<in> set ys. readable st) \<and> s ''messages'' = Some ms \<and> ms \<noteq> []
           \<and> last ms = Message []))"
proof (intro conjI impI iffI; (elim conjE exE)?)
  assume "agent_executor a (memory a) t tid = ys @ [Yield s m]"
    "\<forall>st \<in> set ys. readable st" "s ''messages'' = Some ms" "ms \<noteq> []" "last ms = Message c"
  then show "fst (query a t tid) = Inr c"
    using query_stream_ends [of a t tid ys s m ms] by (simp add: query_cases)
next
  assume q: "fst (query a t tid) = Inr answer"
  show "(\<exists>ys s m ms. agent_executor a (memory a) t tid = ys @ [Yield s m]
           \<and> (\<forall>st \<in> set ys. readable st) \<and> s ''messages'' = Some ms \<and> ms \<noteq> []
           \<and> last ms = Message answer)
        \<or> (\<exists>e. is_Exception e \<and> fst (query_try a t tid) = Inl e
              \<and> answer = ''An error occurred: '' @ str e \<and> answer \<noteq> [])"
  proof (cases "fst (query_try a t tid)")
    case (Inl e)
    with q show ?thesis by (auto simp: query_cases split: if_splits)
  next
    case (Inr c)
    with q have "c = answer" by (simp add: query_cases)
    with Inr query_try_Inr [of a t tid answer] show ?thesis by blast
  qed
next
  assume "fst (query a t tid) = Inr []"
  then have "fst (query_try a t tid) = Inr []"
    by (auto simp: query_cases split: sum.splits if_splits)
  from query_try_Inr [OF this]
  show "\<exists>ys s m ms. agent_executor a (memory a) t tid = ys @ [Yield s m]
           \<and> (\<forall>st \<in> set ys. readable st) \<and> s ''messages'' = Some ms \<and> ms \<noteq> []
           \<and> last ms = Message []" .
next
  fix zs s' m'' ms'
  assume "agent_executor a (memory a) t tid = zs @ [Yield s' m'']"
    "\<forall>st \<in> set zs. readable st" "s' ''messages'' = Some ms'" "ms' \<noteq> []" "last ms' = Message []"
  then show "fst (query a t tid) = Inr []"
    using query_stream_ends [of a t tid zs s' m'' ms'] by (simp add: query_cases)
qed

theorem query_returns_last_content_or_error_text_witness:
  "fst (query (agent_with answering_executor) ''hi'' ''t1'') = Inr ''Paris''
   \<and> fst (query (agent_with silent_executor) ''hi'' ''t1'') = Inr []"
proof -
  have a: "agent_executor (agent_with answering_executor)
             (memory (agent_with answering_executor)) ''hi'' ''t1''
           = [Yield [''messages'' \<mapsto> [Message ''hi'']] ()]
             @ [Yield [''messages'' \<mapsto> [Message ''hi'', Message ''Paris'']] ()]"
    by (simp add: agent_with_def answering_executor_def)
  have s: "agent_executor (agent_with silent_executor)
             (memory (agent_with silent_executor)) ''hi'' ''t1''
           = [Yield [''messages'' \<mapsto> [Message ''hi'']] ()]
             @ [Yield [''messages'' \<mapsto> [Message ''hi'', Message []]] ()]"
    by (simp add: agent_with_def silent_executor_def)
  have r: "\<forall>st \<in> set [Yield [''messages'' \<mapsto> [Message ''hi'']] ()]. readable st"
    by simp
  have x: "\<exists>ys s m ms. agent_executor (agent_with silent_executor)
             (memory (agent_with silent_executor)) ''hi'' ''t1'' = ys @ [Yield s m]
           \<and> (\<forall>st \<in> set ys. readable st) \<and> s ''messages'' = Some ms \<and> ms \<noteq> []
           \<and> last ms = Message []"
    using s r
    by (intro exI [of _ "[Yield [''messages'' \<mapsto> [Message ''hi'']] ()]"]
              exI [of _ "[''messages'' \<mapsto> [Message ''hi'', Message []]]"]
              exI [of _ "()"] exI [of _ "[Message ''hi'', Message []]"]) simp
  have "fst (query (agent_with answering_executor) ''hi'' ''t1'') = Inr ''Paris''"
    using a r
      query_returns_last_content_or_error_text
        [where a = "agent_with answering_executor" and t = "''hi''" and tid = "''t1''"
           and ys = "[Yield [''messages'' \<mapsto> [Message ''hi'']] ()]"
           and s = "[''messages'' \<mapsto> [Message ''hi'', Message ''Paris'']]" and m = "()"
           and ms = "[Message ''hi'', Message ''Paris'']" and c = "''Paris''",
         THEN conjunct1]
    by simp
  moreover have "fst (query (agent_with silent_executor) ''hi'' ''t1'') = Inr []"
    using x
      query_returns_last_content_or_error_text
        [where a = "agent_with silent_executor" and t = "''hi''" and tid = "''t1''",
         THEN conjunct2, THEN conjunct2]
    by blast
  ultimately show ?thesis by simp
qed

text \<open>
  Claim C10. Whenever \<open>query\<close> takes its error path, that is, its \<^verbatim>\<open>try\<close> block raised an
  instance \<open>e\<close> of \<^verbatim>\<open>Exception\<close>, the string it returns is \<open>''An error occurred: ''\<close>
  followed by \<open>str e\<close>; in particular it begins with that prefix. The result of \<open>query\<close>
  carries nothing but this string to tell the error path from the normal one.
\<close>

theorem query_error_prefix:
  "fst (query_try a t tid) = Inl e \<Longrightarrow> is_Exception e \<Longrightarrow>
   fst (query a t tid) = Inr (''An error occurred: '' @ str e)
   \<and> prefix ''An error occurred: '' (projr (fst (query a t tid)))"
  by (simp add: query_cases)

theorem query_error_prefix_witness:
  "fst (query_try (agent_with empty_state_executor) ''hello'' ''abc123'')
     = Inl (Exception ''list index out of range'')
   \<and> is_Exception (Exception ''list index out of range'')
   \<and> fst (query (agent_with empty_state_executor) ''hello'' ''abc123'')
       = Inr ''An error occurred: list index out of range''"
  using query_error_prefix
    [of "agent_with empty_state_executor" "''hello''" "''abc123''"
        "Exception ''list index out of range''"]
  by (simp add: query_try_def agent_with_def empty_state_executor_def IndexError_empty_def)


section \<open>Properties of the construction of the agent\<close>

lemma startswith_prefix: "startswith s p = prefix p s"
proof
  assume "startswith s p"
  then have "s = p @ drop (length p) s"
    unfolding startswith_def by (metis append_take_drop_id)
  then show "prefix p s" unfolding prefix_def by blast
next
  assume "prefix p s"
  then show "startswith s p" by (auto simp: startswith_def prefix_def)
qed

lemma init_fields:
  "init fw cfg = Inr a \<Longrightarrow>
   tools a = [if USE_RAG cfg then Tool_wikipedia_rag else Tool_wikipedia_search]
   \<and> memory a = MemorySaver fw \<and> model a = select_model cfg
   \<and> create_react_agent fw (select_model cfg) (tools a) (SYSTEM_PROMPT cfg)
       = Inr (agent_executor a)"
  by (auto simp: init_def create_rag_tool_def split: if_splits sum.splits option.splits)

text \<open>
  Claim C7. When the construction of the agent succeeds, its model binding is the
  Anthropic one if the configured model name begins with \<open>''claude''\<close>, else the Google one
  if the name begins with \<open>''gemini''\<close>, else the OpenAI one, built from the name and that
  vendor's key; and after any sequence of calls of \<open>query\<close> the agent still has this
  binding.
\<close>

theorem model_binding_by_prefix:
  "init fw cfg = Inr a \<Longrightarrow>
   model a =
     (if prefix ''claude'' (LLM cfg) then ChatAnthropic (LLM cfg) (ANTHROPIC_API_KEY cfg)
      else if prefix ''gemini'' (LLM cfg) then ChatGoogleGenerativeAI (LLM cfg) (GOOGLE_API_KEY cfg)
      else ChatOpenAI (LLM cfg) (OPENAI_API_KEY cfg))
   \<and> vendor_of (model a) =
     (if prefix ''claude'' (LLM cfg) then Anthropic
      else if prefix ''gemini'' (LLM cfg) then Google else OpenAI)
   \<and> model (after_queries a calls) = model a"
  using init_fields [of fw cfg a] after_queries_keeps_fields [of a calls]
  by (simp add: select_model_def startswith_prefix)

theorem model_binding_by_prefix_witness:
  "\<not> isl (init accepting_framework (load_config gemini_environ))
   \<and> model (projr (init accepting_framework (load_config gemini_environ)))
       = ChatGoogleGenerativeAI ''gemini-1.5-pro'' ''g-key''
   \<and> model (after_queries (projr (init accepting_framework (load_config gemini_environ)))
              [(''Who?'', ''t1'')])
       = ChatGoogleGenerativeAI ''gemini-1.5-pro'' ''g-key''"
proof -
  have c: "load_config gemini_environ
      = \<lparr> OPENAI_API_KEY = [], ANTHROPIC_API_KEY = [], GOOGLE_API_KEY = ''g-key'',
          LLM = ''gemini-1.5-pro'', USE_RAG = False, SYSTEM_PROMPT = default_prompt_search \<rparr>"
    by (simp add: load_config_def gemini_environ_def getenv_def lower_def lower_char_def)
  have i: "init accepting_framework (load_config gemini_environ)
      = Inr \<lparr> tools = [Tool_wikipedia_search], memory = (),
              model = ChatGoogleGenerativeAI ''gemini-1.5-pro'' ''g-key'',
              agent_executor = answering_executor \<rparr>"
    by (simp add: c init_def accepting_framework_def accepting_model_init_def
        accepting_executor_of_def select_model_def startswith_def)
  show ?thesis
    using model_binding_by_prefix [OF i, of "[(''Who?'', ''t1'')]"]
    unfolding i by (simp add: c)
qed

lemma load_config_flag:
  "USE_RAG (load_config (environ(''USE_RAG'' \<mapsto> ''true'')))
   \<and> \<not> USE_RAG (load_config (environ(''USE_RAG'' \<mapsto> ''false'')))"
  by (simp add: load_config_def getenv_def lower_def lower_char_def)

lemma load_config_other_fields:
  "LLM (load_config (environ(''USE_RAG'' \<mapsto> v))) = LLM (load_config environ)
   \<and> OPENAI_API_KEY (load_config (environ(''USE_RAG'' \<mapsto> v))) = OPENAI_API_KEY (load_config environ)
   \<and> ANTHROPIC_API_KEY (load_config (environ(''USE_RAG'' \<mapsto> v)))
       = ANTHROPIC_API_KEY (load_config environ)
   \<and> GOOGLE_API_KEY (load_config (environ(''USE_RAG'' \<mapsto> v))) = GOOGLE_API_KEY (load_config environ)"
  by (simp add: load_config_def getenv_def Let_def)

lemma select_model_flag:
  "select_model (load_config (environ(''USE_RAG'' \<mapsto> v))) = select_model (load_config environ)"
  by (simp add: select_model_def load_config_other_fields)

lemma load_config_prompt:
  "SYSTEM_PROMPT (load_config (environ(''USE_RAG'' \<mapsto> ''true'')))
     = (case environ ''SYSTEM_PROMPT'' of None \<Rightarrow> default_prompt_rag | Some p \<Rightarrow> p)
   \<and> SYSTEM_PROMPT (load_config (environ(''USE_RAG'' \<mapsto> ''false'')))
     = (case environ ''SYSTEM_PROMPT'' of None \<Rightarrow> default_prompt_search | Some p \<Rightarrow> p)"
  by (simp add: load_config_def getenv_def lower_def lower_char_def)

lemma default_prompts_differ: "default_prompt_search \<noteq> default_prompt_rag"
  by (simp add: default_prompt_search_def default_prompt_rag_def)

text \<open>
  Claim C8. Take any environment and set \<^verbatim>\<open>USE_RAG\<close> to \<open>''false''\<close>, then to \<open>''true''\<close>. When
  both constructions succeed, each agent has exactly one tool, the direct search for
  \<open>''false''\<close> and the retrieval tool for \<open>''true''\<close>, and keeps it through any sequence of
  calls of \<open>query\<close>. The two agents have the same model binding and the same fresh memory;
  their executors are built from the same model and differ in the tool and in the system
  prompt, which is the configured one when \<^verbatim>\<open>SYSTEM_PROMPT\<close> is set and otherwise the
  default text of the variant, and the two default texts differ. \<open>query\<close> itself is one
  function for both agents.
\<close>

theorem tool_variant_by_use_rag:
  "init fw (load_config (environ(''USE_RAG'' \<mapsto> ''false''))) = Inr a \<Longrightarrow>
   init fw (load_config (environ(''USE_RAG'' \<mapsto> ''true''))) = Inr a' \<Longrightarrow>
   tools a = [Tool_wikipedia_search] \<and> tools a' = [Tool_wikipedia_rag]
   \<and> tools (after_queries a calls) = tools a \<and> tools (after_queries a' calls) = tools a'
   \<and> model a' = model a \<and> memory a' = memory a
   \<and> create_react_agent fw (model a) [Tool_wikipedia_search]
        (case environ ''SYSTEM_PROMPT'' of None \<Rightarrow> default_prompt_search | Some p \<Rightarrow> p)
       = Inr (agent_executor a)
   \<and> create_react_agent fw (model a) [Tool_wikipedia_rag]
        (case environ ''SYSTEM_PROMPT'' of None \<Rightarrow> default_prompt_rag | Some p \<Rightarrow> p)
       = Inr (agent_executor a')
   \<and> default_prompt_search \<noteq> default_prompt_rag"
  using init_fields [of fw "load_config (environ(''USE_RAG'' \<mapsto> ''false''))" a]
    init_fields [of fw "load_config (environ(''USE_RAG'' \<mapsto> ''true''))" a']
    after_queries_keeps_fields [of a calls] after_queries_keeps_fields [of a' calls]
    load_config_flag [of environ] load_config_prompt [of environ]
    select_model_flag [of environ] default_prompts_differ
  by auto

theorem tool_variant_by_use_rag_witness:
  "\<not> isl (init accepting_framework (load_config [''USE_RAG'' \<mapsto> ''false'']))
   \<and> \<not> isl (init accepting_framework (load_config [''USE_RAG'' \<mapsto> ''true'']))
   \<and> tools (projr (init accepting_framework (load_config [''USE_RAG'' \<mapsto> ''false''])))
       = [Tool_wikipedia_search]
   \<and> tools (projr (init accepting_framework (load_config [''USE_RAG'' \<mapsto> ''true''])))
       = [Tool_wikipedia_rag]
   \<and> model (projr (init accepting_framework (load_config [''USE_RAG'' \<mapsto> ''true''])))
       = model (projr (init accepting_framework (load_config [''USE_RAG'' \<mapsto> ''false''])))"
proof -
  have f: "init accepting_framework (load_config [''USE_RAG'' \<mapsto> ''false''])
      = Inr \<lparr> tools = [Tool_wikipedia_search], memory = (),
              model = ChatAnthropic ''claude-3-5-sonnet-latest'' [],
              agent_executor = answering_executor \<rparr>"
    by (simp add: load_config_def getenv_def lower_def lower_char_def init_def
        accepting_framework_def accepting_model_init_def accepting_executor_of_def
        select_model_def startswith_def)
  have t: "init accepting_framework (load_config [''USE_RAG'' \<mapsto> ''true''])
      = Inr \<lparr> tools = [Tool_wikipedia_rag], memory = (),
              model = ChatAnthropic ''claude-3-5-sonnet-latest'' [],
              agent_executor = answering_executor \<rparr>"
    by (simp add: load_config_def getenv_def lower_def lower_char_def init_def
        create_rag_tool_def accepting_framework_def accepting_model_init_def
        accepting_executor_of_def select_model_def startswith_def)
  show ?thesis
    using tool_variant_by_use_rag [OF f t, of "[]"] unfolding f t by simp
qed


section \<open>Properties of the terminal interface\<close>

text \<open>
  Claim C9, as stated, fails. The line \<open>'' hi''\<close> is none of the special values, yet the
  text handed to \<open>query\<close> is \<open>''hi''\<close>, not the line as read; and although \<open>query\<close> returns
  \<open>''Paris''\<close>, the turn prints no line of its own with it: what is on the terminal is
  the notice and the messages \<open>query\<close> pretty-printed while streaming.
\<close>

theorem terminal_strips_and_does_not_print_response:
  "fst (snd (main_loop_body (agent_with answering_executor) (Inr '' hi'')))
     = [Thinking, Query_call ''hi'' ''abc123'',
        Pretty_print (Message ''hi''), Pretty_print (Message ''Paris'')]
   \<and> fst (query (agent_with answering_executor) ''hi'' ''abc123'') = Inr ''Paris''"
  by (simp add: main_loop_body_def main_try_def Let_def strip_def isspace_def lower_def
      lower_char_def query_def query_try_def agent_with_def answering_executor_def)

text \<open>
  Claim C9, amended. For every line read, with \<open>u\<close> the line stripped of surrounding white
  space (all of it that \<^verbatim>\<open>str.strip()\<close> removes, the no-break space included): if \<open>u\<close>
  in lower case is \<open>exit\<close> or \<open>quit\<close>, the turn prints the farewell and
  leaves \<open>main\<close> with \<^verbatim>\<open>SystemExit(0)\<close>; if it is \<open>clear\<close>, the turn clears the screen and
  prints the welcome text, nothing else; if \<open>u\<close> is empty the turn does nothing;
  otherwise the turn prints the notice, calls \<open>query\<close> with \<open>u\<close> and the default thread id,
  and prints nothing after what \<open>query\<close> itself printed, except the exit notice when
  \<open>query\<close> was interrupted from the keyboard, in which case \<open>main\<close> is left with
  \<^verbatim>\<open>SystemExit(0)\<close>.
\<close>

theorem terminal_turn:
  "(lower (strip line) \<in> set [''exit'', ''quit''] \<longrightarrow>
      main_loop_body agent (Inr line) = (Some (SystemExit 0), [Goodbye], agent))
   \<and> (lower (strip line) \<notin> set [''exit'', ''quit''] \<and> lower (strip line) = ''clear'' \<longrightarrow>
      main_loop_body agent (Inr line) = (None, [Clear_screen, Welcome], agent))
   \<and> (strip line = [] \<longrightarrow> main_loop_body agent (Inr line) = (None, [], agent))
   \<and> (lower (strip line) \<notin> set [''exit'', ''quit'', ''clear''] \<and> strip line \<noteq> [] \<longrightarrow>
      fst (snd (main_loop_body agent (Inr line)))
        = [Thinking, Query_call (strip line) ''abc123'']
          @ fst (snd (query agent (strip line) ''abc123''))
          @ (if fst (query agent (strip line) ''abc123'') = Inl KeyboardInterrupt
             then [Exiting] else [])
      \<and> fst (main_loop_body agent (Inr line))
        = (case fst (query agent (strip line) ''abc123'') of
             Inr response \<Rightarrow> None
           | Inl e \<Rightarrow> Some (case e of KeyboardInterrupt \<Rightarrow> SystemExit 0 | _ \<Rightarrow> e))
      \<and> snd (snd (main_loop_body agent (Inr line)))
        = snd (snd (query agent (strip line) ''abc123'')))"
proof -
  have e: "strip line = [] \<Longrightarrow> lower (strip line) \<notin> set [''exit'', ''quit'', ''clear'']"
    by (simp add: lower_def)
  show ?thesis
    using e
    by (auto simp: main_loop_body_def main_try_def Let_def
             dest: query_never_raises_Exception
             split: prod.splits sum.splits exn.splits option.splits)
qed

theorem terminal_turn_witness:
  "main_loop_body (agent_with answering_executor) (Inr ''QUIT '')
     = (Some (SystemExit 0), [Goodbye], agent_with answering_executor)
   \<and> main_loop_body (agent_with answering_executor) (Inr ([CHR 0xA0] @ ''exit'' @ [CHR 0x85]))
     = (Some (SystemExit 0), [Goodbye], agent_with answering_executor)
   \<and> main_loop_body (agent_with answering_executor) (Inr '' Clear'')
     = (None, [Clear_screen, Welcome], agent_with answering_executor)
   \<and> main_loop_body (agent_with answering_executor) (Inr ''   '')
     = (None, [], agent_with answering_executor)
   \<and> fst (snd (main_loop_body (agent_with interrupted_executor) (Inr ''Who? '')))
     = [Thinking, Query_call ''Who?'' ''abc123'', Pretty_print (Message ''Who?''), Exiting]
   \<and> fst (main_loop_body (agent_with interrupted_executor) (Inr ''Who? ''))
     = Some (SystemExit 0)"
  using terminal_turn [of "''QUIT ''" "agent_with answering_executor"]
    terminal_turn [of "[CHR 0xA0] @ ''exit'' @ [CHR 0x85]" "agent_with answering_executor"]
    terminal_turn [of "'' Clear''" "agent_with answering_executor"]
    terminal_turn [of "''   ''" "agent_with answering_executor"]
    terminal_turn [of "''Who? ''" "agent_with interrupted_executor"]
  by (simp add: strip_def isspace_def lower_def lower_char_def
      query_def query_try_def agent_with_def interrupted_executor_def)

end
